theory Spec2Isabelle
  imports Main
begin

section \<open>Data model of app.py\<close>

text \<open>
  The two ORM models of \<^verbatim>\<open>app.py\<close>. A column declared \<^verbatim>\<open>nullable=True\<close> holds
  an option. \<^verbatim>\<open>is_visible\<close> is written by the column default of the insert and by the
  toggles only, so it is a boolean in every row. The column \<^verbatim>\<open>id\<close> is \<open>user_id\<close> and \<open>media_id\<close> here, and
  \<^verbatim>\<open>size\<close> is \<open>size_col\<close>, since \<open>id\<close> and \<open>size\<close> are constants of HOL.
\<close>

type_synonym bytes = string

record user =
  user_id :: int
  username :: string
  password :: string

record media =
  media_id :: int
  filename :: string
  url :: string
  public_id :: string
  is_visible :: bool
  uploaded_by :: "string option"
  description :: "string option"
  size_col :: "nat option"
  mimetype :: "string option"

text \<open>
  The relational store: the rows of each table in insertion order, and the last value
  each primary-key sequence has handed out. Column lengths are not enforced.
\<close>

record db =
  user_rows :: "user list"
  media_rows :: "media list"
  user_seq :: int
  media_seq :: int

subsection \<open>Requests, responses, exceptions\<close>

datatype http_method = GET | POST

text \<open>A werkzeug \<^verbatim>\<open>FileStorage\<close>: the submitted file of a multipart form.\<close>

record file_storage =
  fs_filename :: string
  fs_content :: bytes
  fs_mimetype :: string

text \<open>
  What a handler reads from the request: the method, the form fields (a multi-dict, so
  a key may occur several times), the uploaded files, the members of the JSON body (an
  object whose values are lists of integers, as the bulk routes expect), and
  flask-login's \<^verbatim>\<open>current_user\<close> (\<open>None\<close> for an anonymous visitor).
\<close>

record request =
  r_method :: http_method
  r_form :: "(string \<times> string) list"
  r_files :: "(string \<times> file_storage) list"
  r_json :: "(string \<times> int list) list"
  current_user :: "user option"

datatype response =
    Redirect string
  | Render string "media list"
  | Jsonify "(string \<times> string) list"
  | SendFile string "(string \<times> bytes) list"

text \<open>
  An exception that leaves a handler (the framework answers with status 500). The
  string is the message of the exception.
\<close>

datatype error =
    CloudinaryError string
  | RequestException string
  | KeyError string
  | ValueError string
  | AttributeError string

subsection \<open>Collaborators\<close>

text \<open>
  The libraries the handlers call are parameters. The outside world has a state \<open>'w\<close>
  that every call may read and change, so that two calls with the same argument may
  answer differently. \<open>Inl msg\<close> is a raised exception with message \<open>msg\<close>.
  \<^item> \<open>cloudinary_upload\<close> returns the reply dictionary of the remote store;
  \<^item> \<open>cloudinary_destroy\<close> returns the \<^verbatim>\<open>result\<close> member of the reply
    (\<^verbatim>\<open>ok\<close>, \<^verbatim>\<open>not found\<close>);
  \<^item> \<open>requests_get\<close> returns the body of the HTTP response;
  \<^item> \<open>generate_password_hash\<close> draws a salt from the world;
  \<^item> \<open>py_int\<close> is Python's \<^verbatim>\<open>int(str)\<close>, \<open>None\<close> where it raises ValueError.
\<close>

record 'w env =
  cloudinary_upload :: "'w \<Rightarrow> file_storage \<Rightarrow> (string + (string \<times> string) list) \<times> 'w"
  cloudinary_destroy :: "'w \<Rightarrow> string \<Rightarrow> (string + string) \<times> 'w"
  requests_get :: "'w \<Rightarrow> string \<Rightarrow> (string + bytes) \<times> 'w"
  generate_password_hash :: "'w \<Rightarrow> string \<Rightarrow> string \<times> 'w"
  check_password_hash :: "string \<Rightarrow> string \<Rightarrow> bool"
  py_int :: "string \<Rightarrow> int option"

subsection \<open>The state of one request\<close>

text \<open>
  Every effect of a handler is an event of the trace, in the order the handler
  performs it.
\<close>

datatype event =
    Flash string
  | RemoteUpload file_storage
  | RemoteDestroy string
  | HttpGet string
  | SessionAddUser user
  | SessionAddMedia media
  | SessionDeleteUser user
  | SessionDeleteMedia media
  | Commit
  | LoginUser user
  | LogoutUser

text \<open>
  \<open>committed\<close> is the database as other requests see it. \<open>work\<close> is the view of the
  ORM session: the rows it has loaded, added or changed. A row passed to
  \<^verbatim>\<open>db.session.delete\<close> is only marked (\<open>del_users\<close>, \<open>del_medias\<close>) and stays in
  the session until the next flush; \<^verbatim>\<open>db.session.commit\<close> flushes and makes the
  result the committed database. A request that ends without a commit leaves
  \<open>committed\<close> as it was: the session is discarded.
\<close>

record 'w state =
  committed :: db
  work :: db
  del_users :: "int list"
  del_medias :: "int list"
  trace :: "event list"
  world :: 'w

type_synonym 'w result = "(error + response) \<times> 'w state"

definition begin_request :: "db \<Rightarrow> 'w \<Rightarrow> 'w state" where
  "begin_request d w =
     \<lparr>committed = d, work = d, del_users = [], del_medias = [], trace = [], world = w\<rparr>"

definition emit :: "event \<Rightarrow> 'w state \<Rightarrow> 'w state" where
  "emit e s = s\<lparr>trace := trace s @ [e]\<rparr>"

definition flash :: "string \<Rightarrow> 'w state \<Rightarrow> 'w state" where
  "flash msg s = emit (Flash msg) s"

text \<open>\<^verbatim>\<open>Media.query.get(i)\<close>: the row of the session with primary key \<open>i\<close>.\<close>

definition media_get :: "int \<Rightarrow> 'w state \<Rightarrow> media option" where
  "media_get i s = find (\<lambda>m. media_id m = i) (media_rows (work s))"

text \<open>An attribute assignment on a loaded row changes the row of the session.\<close>

definition media_update :: "int \<Rightarrow> (media \<Rightarrow> media) \<Rightarrow> 'w state \<Rightarrow> 'w state" where
  "media_update i f s =
     s\<lparr>work := (work s)\<lparr>media_rows :=
          map (\<lambda>m. if media_id m = i then f m else m) (media_rows (work s))\<rparr>\<rparr>"

definition session_delete_media :: "media \<Rightarrow> 'w state \<Rightarrow> 'w state" where
  "session_delete_media m s =
     emit (SessionDeleteMedia m) (s\<lparr>del_medias := media_id m # del_medias s\<rparr>)"

definition session_delete_user :: "user \<Rightarrow> 'w state \<Rightarrow> 'w state" where
  "session_delete_user u s =
     emit (SessionDeleteUser u) (s\<lparr>del_users := user_id u # del_users s\<rparr>)"

text \<open>
  \<^verbatim>\<open>db.session.add\<close> of a new object; the primary key is the next value of the
  sequence. A new \<^verbatim>\<open>Media\<close> object is given as a function of its key.
\<close>

definition session_add_user :: "string \<Rightarrow> string \<Rightarrow> 'w state \<Rightarrow> 'w state" where
  "session_add_user name hashed s =
     (let u = \<lparr>user_id = user_seq (work s) + 1, username = name, password = hashed\<rparr>
      in emit (SessionAddUser u)
           (s\<lparr>work := (work s)\<lparr>user_rows := user_rows (work s) @ [u],
                                 user_seq := user_seq (work s) + 1\<rparr>\<rparr>))"

definition session_add_media :: "(int \<Rightarrow> media) \<Rightarrow> 'w state \<Rightarrow> 'w state" where
  "session_add_media obj s =
     (let m = obj (media_seq (work s) + 1)
      in emit (SessionAddMedia m)
           (s\<lparr>work := (work s)\<lparr>media_rows := media_rows (work s) @ [m],
                                 media_seq := media_seq (work s) + 1\<rparr>\<rparr>))"

definition flush :: "'w state \<Rightarrow> db" where
  "flush s =
     (work s)\<lparr>user_rows := filter (\<lambda>u. user_id u \<notin> set (del_users s)) (user_rows (work s)),
               media_rows := filter (\<lambda>m. media_id m \<notin> set (del_medias s)) (media_rows (work s))\<rparr>"

definition commit :: "'w state \<Rightarrow> 'w state" where
  "commit s =
     emit Commit (s\<lparr>committed := flush s, work := flush s, del_users := [], del_medias := []\<rparr>)"

text \<open>
  \<^verbatim>\<open>User.query.filter_by(username=name).first()\<close> and \<^verbatim>\<open>User.query.first()\<close>: a
  query flushes the session first. A missing form field is \<^verbatim>\<open>None\<close>, which no
  row's username equals.
\<close>

definition user_by_name :: "string option \<Rightarrow> 'w state \<Rightarrow> user option" where
  "user_by_name name s = find (\<lambda>u. Some (username u) = name) (user_rows (flush s))"

definition user_first :: "'w state \<Rightarrow> user option" where
  "user_first s = (case user_rows (flush s) of [] \<Rightarrow> None | u # _ \<Rightarrow> Some u)"

subsection \<open>Calls to the collaborators\<close>

definition destroy :: "'w env \<Rightarrow> string \<Rightarrow> 'w state \<Rightarrow> (string + string) \<times> 'w state" where
  "destroy env pid s =
     (case cloudinary_destroy env (world s) pid of
        (out, w') \<Rightarrow> (out, emit (RemoteDestroy pid) (s\<lparr>world := w'\<rparr>)))"

definition uploader_upload ::
  "'w env \<Rightarrow> file_storage \<Rightarrow> 'w state \<Rightarrow> (string + (string \<times> string) list) \<times> 'w state" where
  "uploader_upload env file s =
     (case cloudinary_upload env (world s) file of
        (out, w') \<Rightarrow> (out, emit (RemoteUpload file) (s\<lparr>world := w'\<rparr>)))"

definition http_get :: "'w env \<Rightarrow> string \<Rightarrow> 'w state \<Rightarrow> (string + bytes) \<times> 'w state" where
  "http_get env u s =
     (case requests_get env (world s) u of
        (out, w') \<Rightarrow> (out, emit (HttpGet u) (s\<lparr>world := w'\<rparr>)))"

definition hash_password :: "'w env \<Rightarrow> string \<Rightarrow> 'w state \<Rightarrow> string \<times> 'w state" where
  "hash_password env pw s =
     (case generate_password_hash env (world s) pw of
        (h, w') \<Rightarrow> (h, s\<lparr>world := w'\<rparr>))"

text \<open>
  flask-login's \<^verbatim>\<open>@login_required\<close>: an anonymous visitor is sent to the login view
  (\<^verbatim>\<open>login_manager.login_view = 'login'\<close>) with the library's message, and the view is
  not run.
\<close>

definition login_required :: "(request \<Rightarrow> 'w state \<Rightarrow> 'w result) \<Rightarrow> request \<Rightarrow> 'w state \<Rightarrow> 'w result" where
  "login_required view req s =
     (case current_user req of
        None \<Rightarrow> (Inr (Redirect ''login''), flash ''Please log in to access this page.'' s)
      | Some u \<Rightarrow> view req s)"

section \<open>The routes\<close>

subsection \<open>Reading the request\<close>

text \<open>\<^verbatim>\<open>request.form.get(k)\<close>, \<^verbatim>\<open>request.form.get(k, dflt)\<close>, \<^verbatim>\<open>request.form.getlist(k)\<close>.\<close>

definition form_get :: "request \<Rightarrow> string \<Rightarrow> string option" where
  "form_get req k = map_of (r_form req) k"

definition form_get_default :: "request \<Rightarrow> string \<Rightarrow> string \<Rightarrow> string" where
  "form_get_default req k dflt = (case map_of (r_form req) k of None \<Rightarrow> dflt | Some v \<Rightarrow> v)"

definition form_getlist :: "request \<Rightarrow> string \<Rightarrow> string list" where
  "form_getlist req k = map snd (filter (\<lambda>kv. fst kv = k) (r_form req))"

text \<open>\<^verbatim>\<open>data.get('media_ids', [])\<close> on the JSON body.\<close>

definition json_get :: "request \<Rightarrow> string \<Rightarrow> int list \<Rightarrow> int list" where
  "json_get req k dflt = (case map_of (r_json req) k of None \<Rightarrow> dflt | Some v \<Rightarrow> v)"

text \<open>Python's \<^verbatim>\<open>not v\<close> for a form value: true for \<^verbatim>\<open>None\<close> and for the empty string.\<close>

definition py_not :: "string option \<Rightarrow> bool" where
  "py_not v = (case v of None \<Rightarrow> True | Some x \<Rightarrow> x = [])"

text \<open>The quotation marks of the two f-strings that are flashed.\<close>

definition quoted :: "string \<Rightarrow> string" where
  "quoted x = [CHR 0x27] @ x @ [CHR 0x27]"

subsection \<open>Auth routes\<close>

definition setup_view :: "'w env \<Rightarrow> request \<Rightarrow> 'w state \<Rightarrow> 'w result" where
  "setup_view env req s =
     (if r_method req = POST then
        (case (form_get req ''username'', form_get req ''password'') of
           (Some name, Some pw) \<Rightarrow>
             if py_not (Some name) \<or> py_not (Some pw) then
               (Inr (Render ''setup.html'' []), flash ''Username and password cannot be empty.'' s)
             else
               (let s1 = (case user_by_name (Some name) s of
                            None \<Rightarrow> s
                          | Some existing \<Rightarrow> commit (session_delete_user existing s))
                in case hash_password env pw s1 of
                     (hashed, s2) \<Rightarrow>
                       (Inr (Redirect ''login''),
                        flash (''Admin '' @ quoted name @ '' created! You can now log in.'')
                          (commit (session_add_user name hashed s2))))
         | _ \<Rightarrow>
             (Inr (Render ''setup.html'' []), flash ''Username and password cannot be empty.'' s))
      else (Inr (Render ''setup.html'' []), s))"

definition register :: "'w env \<Rightarrow> request \<Rightarrow> 'w state \<Rightarrow> 'w result" where
  "register env req s =
     (if r_method req = POST then
        (case (form_get req ''username'', form_get req ''password'') of
           (Some name, Some pw) \<Rightarrow>
             if py_not (Some name) \<or> py_not (Some pw) then
               (Inr (Redirect ''register''), flash ''Username and password cannot be empty.'' s)
             else if user_by_name (Some name) s \<noteq> None then
               (Inr (Redirect ''register''), flash ''That username is already taken.'' s)
             else
               (case hash_password env pw s of
                  (hashed, s1) \<Rightarrow>
                    (Inr (Redirect ''login''),
                     flash (''User '' @ quoted name @ '' created successfully. You can now log in.'')
                       (commit (session_add_user name hashed s1))))
         | _ \<Rightarrow>
             (Inr (Redirect ''register''), flash ''Username and password cannot be empty.'' s))
      else (Inr (Render ''register.html'' []), s))"

text \<open>
  \<^verbatim>\<open>check_password_hash(user.password, password)\<close> is evaluated only when a user was
  found; with the password field missing it raises inside the library.
\<close>

definition login :: "'w env \<Rightarrow> request \<Rightarrow> 'w state \<Rightarrow> 'w result" where
  "login env req s =
     (if user_first s = None then (Inr (Redirect ''setup''), s)
      else if r_method req = POST then
        (case user_by_name (form_get req ''username'') s of
           None \<Rightarrow> (Inr (Render ''login.html'' []), flash ''Invalid credentials'' s)
         | Some u \<Rightarrow>
             (case form_get req ''password'' of
                None \<Rightarrow> (Inl (AttributeError ''encode''), s)
              | Some pw \<Rightarrow>
                  if check_password_hash env (password u) pw
                  then (Inr (Redirect ''manage''), emit (LoginUser u) s)
                  else (Inr (Render ''login.html'' []), flash ''Invalid credentials'' s)))
      else (Inr (Render ''login.html'' []), s))"

definition logout :: "request \<Rightarrow> 'w state \<Rightarrow> 'w result" where
  "logout = login_required (\<lambda>req s. (Inr (Redirect ''gallery''), emit LogoutUser s))"

subsection \<open>Media routes\<close>

definition home :: "request \<Rightarrow> 'w state \<Rightarrow> 'w result" where
  "home req s = (Inr (Redirect ''upload''), s)"

text \<open>The constructor call \<^verbatim>\<open>Media(...)\<close> of the handler; the key comes with the insert.\<close>

definition new_media ::
  "string \<Rightarrow> string \<Rightarrow> string \<Rightarrow> string \<Rightarrow> string option \<Rightarrow> nat \<Rightarrow> string \<Rightarrow> int \<Rightarrow> media" where
  "new_media fname secure_url pid uploader_name descr sz mtype key =
     \<lparr>media_id = key, filename = fname, url = secure_url, public_id = pid, is_visible = True,
      uploaded_by = Some uploader_name, description = descr, size_col = Some sz,
      mimetype = Some mtype\<rparr>"

definition upload :: "'w env \<Rightarrow> request \<Rightarrow> 'w state \<Rightarrow> 'w result" where
  "upload env req s =
     (if r_method req = POST then
        (case map_of (r_files req) ''file'' of
           None \<Rightarrow> (Inr (Render ''upload.html'' []), s)
         | Some file \<Rightarrow>
             if fs_filename file \<noteq> [] then
               (let uploader_name =
                      (case current_user req of
                         Some u \<Rightarrow> username u
                       | None \<Rightarrow> form_get_default req ''uploader_name'' ''Anonymous'');
                    sz = length (fs_content file)
                in case uploader_upload env file s of
                     (Inl e, s1) \<Rightarrow> (Inr (Redirect ''upload''), flash (''Upload failed: '' @ e) s1)
                   | (Inr result, s1) \<Rightarrow>
                       (case map_of result ''secure_url'' of
                          None \<Rightarrow> (Inl (KeyError ''secure_url''), s1)
                        | Some secure_url \<Rightarrow>
                            (case map_of result ''public_id'' of
                               None \<Rightarrow> (Inl (KeyError ''public_id''), s1)
                             | Some pid \<Rightarrow>
                                 (Inr (Redirect ''gallery''),
                                  flash ''Upload successful!''
                                    (commit (session_add_media
                                       (new_media (fs_filename file) secure_url pid uploader_name
                                          (form_get req ''description'') sz (fs_mimetype file))
                                       s1))))))
             else (Inr (Render ''upload.html'' []), s))
      else (Inr (Render ''upload.html'' []), s))"

definition gallery :: "request \<Rightarrow> 'w state \<Rightarrow> 'w result" where
  "gallery req s = (Inr (Render ''gallery.html'' (filter is_visible (media_rows (flush s)))), s)"

definition manage :: "request \<Rightarrow> 'w state \<Rightarrow> 'w result" where
  "manage = login_required (\<lambda>req s. (Inr (Render ''manage.html'' (media_rows (flush s))), s))"

definition delete :: "'w env \<Rightarrow> int \<Rightarrow> request \<Rightarrow> 'w state \<Rightarrow> 'w result" where
  "delete env mid =
     login_required (\<lambda>req s.
       case media_get mid s of
         None \<Rightarrow> (Inr (Redirect ''manage''), s)
       | Some m \<Rightarrow>
           (case destroy env (public_id m) s of
              (Inl e, s1) \<Rightarrow> (Inl (CloudinaryError e), s1)
            | (Inr reply, s1) \<Rightarrow>
                (Inr (Redirect ''manage''),
                 flash ''Deleted successfully'' (commit (session_delete_media m s1)))))"

definition flip_visible :: "media \<Rightarrow> media" where
  "flip_visible m = m\<lparr>is_visible := \<not> is_visible m\<rparr>"

definition toggle_visibility :: "int \<Rightarrow> request \<Rightarrow> 'w state \<Rightarrow> 'w result" where
  "toggle_visibility mid =
     login_required (\<lambda>req s.
       case media_get mid s of
         None \<Rightarrow> (Inr (Redirect ''manage''), s)
       | Some m \<Rightarrow> (Inr (Redirect ''manage''), commit (media_update mid flip_visible s)))"

text \<open>
  The loop that fills the archive \<open>zf\<close>, a list of entries (name, content) in the
  order they are written. \<^verbatim>\<open>writestr\<close> appends an entry also when the name is
  already in the archive.
\<close>

fun write_selected ::
  "'w env \<Rightarrow> string list \<Rightarrow> (string \<times> bytes) list \<Rightarrow> 'w state
     \<Rightarrow> (error + (string \<times> bytes) list) \<times> 'w state" where
  "write_selected env [] zf s = (Inr zf, s)"
| "write_selected env (m_id # rest) zf s =
     (case py_int env m_id of
        None \<Rightarrow> (Inl (ValueError m_id), s)
      | Some i \<Rightarrow>
          (case media_get i s of
             None \<Rightarrow> write_selected env rest zf s
           | Some m \<Rightarrow>
               (case http_get env (url m) s of
                  (Inl e, s1) \<Rightarrow> (Inl (RequestException e), s1)
                | (Inr content, s1) \<Rightarrow> write_selected env rest (zf @ [(filename m, content)]) s1)))"

definition download_selected :: "'w env \<Rightarrow> request \<Rightarrow> 'w state \<Rightarrow> 'w result" where
  "download_selected env =
     login_required (\<lambda>req s.
       let selected_ids = form_getlist req ''media_ids''
       in if selected_ids = [] then (Inr (Redirect ''manage''), flash ''No files selected'' s)
          else (case write_selected env selected_ids [] s of
                  (Inl e, s1) \<Rightarrow> (Inl e, s1)
                | (Inr zf, s1) \<Rightarrow> (Inr (SendFile ''selected_media.zip'' zf), s1)))"

subsection \<open>Bulk operations\<close>

text \<open>
  The loop of \<^verbatim>\<open>bulk_toggle_visibility\<close>. \<^verbatim>\<open>db.session.add(media)\<close> of a row the
  session has loaded changes nothing.
\<close>

fun toggle_each :: "int list \<Rightarrow> 'w state \<Rightarrow> 'w state" where
  "toggle_each [] s = s"
| "toggle_each (m_id # rest) s =
     (case media_get m_id s of
        None \<Rightarrow> toggle_each rest s
      | Some m \<Rightarrow> toggle_each rest (media_update m_id flip_visible s))"

definition bulk_toggle_visibility :: "request \<Rightarrow> 'w state \<Rightarrow> 'w result" where
  "bulk_toggle_visibility =
     login_required (\<lambda>req s.
       (Inr (Jsonify [(''status'', ''success'')]),
        commit (toggle_each (json_get req ''media_ids'' []) s)))"

text \<open>The loop of \<^verbatim>\<open>bulk_delete\<close>; an exception of the destroy call ends it.\<close>

fun delete_each :: "'w env \<Rightarrow> int list \<Rightarrow> 'w state \<Rightarrow> error option \<times> 'w state" where
  "delete_each env [] s = (None, s)"
| "delete_each env (m_id # rest) s =
     (case media_get m_id s of
        None \<Rightarrow> delete_each env rest s
      | Some m \<Rightarrow>
          (case destroy env (public_id m) s of
             (Inl e, s1) \<Rightarrow> (Some (CloudinaryError e), s1)
           | (Inr reply, s1) \<Rightarrow> delete_each env rest (session_delete_media m s1)))"

definition bulk_delete :: "'w env \<Rightarrow> request \<Rightarrow> 'w state \<Rightarrow> 'w result" where
  "bulk_delete env =
     login_required (\<lambda>req s.
       case delete_each env (json_get req ''media_ids'' []) s of
         (Some e, s1) \<Rightarrow> (Inl e, s1)
       | (None, s1) \<Rightarrow> (Inr (Jsonify [(''status'', ''success'')]), commit s1))"

section \<open>Example data\<close>

text \<open>
  A remote store that refuses the object \<^verbatim>\<open>locked\<close>, answers \<^verbatim>\<open>not found\<close> for the
  object \<^verbatim>\<open>gone\<close> and rejects an empty file; a hash that only tags the password; the
  decimal strings the examples use. The world counts the calls.
\<close>

definition example_env :: "nat env" where
  "example_env =
     \<lparr>cloudinary_upload = (\<lambda>w f.
        (if fs_content f = [] then Inl ''Empty file''
         else Inr [(''secure_url'', ''https://cdn.example/'' @ fs_filename f),
                   (''public_id'', ''pid-'' @ fs_filename f)], Suc w)),
      cloudinary_destroy = (\<lambda>w p.
        (if p = ''locked'' then Inl ''Forbidden''
         else if p = ''gone'' then Inr ''not found'' else Inr ''ok'', Suc w)),
      requests_get = (\<lambda>w u. (Inr (''bytes of '' @ u), Suc w)),
      generate_password_hash = (\<lambda>w pw. (''plain$'' @ pw, Suc w)),
      check_password_hash = (\<lambda>h pw. h = ''plain$'' @ pw),
      py_int = map_of [(''1'', 1), (''2'', 2), (''3'', 3), (''999'', 999)]\<rparr>"

definition admin :: user where
  "admin = \<lparr>user_id = 1, username = ''admin'', password = ''plain$secret''\<rparr>"

definition mk_media :: "int \<Rightarrow> string \<Rightarrow> string \<Rightarrow> bool \<Rightarrow> media" where
  "mk_media i name pid vis =
     \<lparr>media_id = i, filename = name, url = ''https://cdn.example/'' @ name, public_id = pid,
      is_visible = vis, uploaded_by = Some ''Anonymous'', description = None,
      size_col = Some 3, mimetype = Some ''image/jpeg''\<rparr>"

definition empty_db :: db where
  "empty_db = \<lparr>user_rows = [], media_rows = [], user_seq = 0, media_seq = 0\<rparr>"

definition example_db :: db where
  "example_db =
     \<lparr>user_rows = [admin],
      media_rows = [mk_media 1 ''a.jpg'' ''gone'' True, mk_media 2 ''b.jpg'' ''locked'' True,
                    mk_media 3 ''c.jpg'' ''pid-c'' False],
      user_seq = 1, media_seq = 3\<rparr>"

definition as_admin :: request where
  "as_admin = \<lparr>r_method = GET, r_form = [], r_files = [], r_json = [], current_user = Some admin\<rparr>"


definition empty_png :: file_storage where
  "empty_png = \<lparr>fs_filename = ''empty.png'', fs_content = [], fs_mimetype = ''image/png''\<rparr>"


definition post_empty_png :: request where
  "post_empty_png = \<lparr>r_method = POST, r_form = [], r_files = [(''file'', empty_png)],
     r_json = [], current_user = None\<rparr>"

definition post_no_file :: request where
  "post_no_file = \<lparr>r_method = POST, r_form = [(''description'', ''x'')], r_files = [],
     r_json = [], current_user = None\<rparr>"

definition post_ids :: "int list \<Rightarrow> request" where
  "post_ids ids = \<lparr>r_method = POST, r_form = [], r_files = [], r_json = [(''media_ids'', ids)],
     current_user = Some admin\<rparr>"


definition post_selection :: "string list \<Rightarrow> request" where
  "post_selection ids =
     \<lparr>r_method = POST, r_form = map (\<lambda>i. (''media_ids'', i)) ids, r_files = [], r_json = [],
      current_user = Some admin\<rparr>"

section \<open>The constraints of the schema\<close>

text \<open>
  What the primary keys and the \<^verbatim>\<open>unique=True\<close> of \<^verbatim>\<open>User.username\<close> guarantee of
  a stored database: keys and usernames do not repeat, and every key came from its
  sequence.
\<close>

definition wf_db :: "db \<Rightarrow> bool" where
  "wf_db d =
     (distinct (map user_id (user_rows d)) \<and> distinct (map username (user_rows d))
      \<and> list_all (\<lambda>u. user_id u \<le> user_seq d) (user_rows d)
      \<and> distinct (map media_id (media_rows d))
      \<and> list_all (\<lambda>m. media_id m \<le> media_seq d) (media_rows d))"

section \<open>Order of effects\<close>

text \<open>
  \<open>destroy_first prev tr\<close>: in the trace \<open>tr\<close>, which follows the event \<open>prev\<close>, every
  \<^verbatim>\<open>db.session.delete\<close> of a Media row comes directly after a destroy call of the remote
  store with the public_id of that row.
\<close>

fun destroy_first :: "event option \<Rightarrow> event list \<Rightarrow> bool" where
  "destroy_first prev [] = True"
| "destroy_first prev (e # es) =
     ((case e of SessionDeleteMedia m \<Rightarrow> prev = Some (RemoteDestroy (public_id m)) | _ \<Rightarrow> True)
      \<and> destroy_first (Some e) es)"

section \<open>The archive, in the words of the specification\<close>

text \<open>
  The specification describes the archive of download_selected in two steps, which the
  handler interleaves in one loop: \<open>selected_rows\<close> are the still-existing rows of the
  selected ids, one for every occurrence of an id that has a row, in the order of the
  selection; \<open>fetch_all\<close> fetches the given URLs one after the other and returns the
  bodies, or the first exception.
\<close>

fun selected_rows :: "media list \<Rightarrow> int list \<Rightarrow> media list" where
  "selected_rows rows [] = []"
| "selected_rows rows (i # rest) =
     (case find (\<lambda>m. media_id m = i) rows of
        None \<Rightarrow> selected_rows rows rest
      | Some m \<Rightarrow> m # selected_rows rows rest)"

fun fetch_all :: "'w env \<Rightarrow> 'w \<Rightarrow> string list \<Rightarrow> (string + bytes list) \<times> 'w" where
  "fetch_all env w [] = (Inr [], w)"
| "fetch_all env w (u # us) =
     (case requests_get env w u of
        (Inl e, w1) \<Rightarrow> (Inl e, w1)
      | (Inr c, w1) \<Rightarrow>
          (case fetch_all env w1 us of
             (Inl e, w2) \<Rightarrow> (Inl e, w2)
           | (Inr cs, w2) \<Rightarrow> (Inr (c # cs), w2)))"

section \<open>Properties\<close>

lemma find_media_id:
  "find (\<lambda>m. media_id m = i) rows = Some m \<Longrightarrow> m \<in> set rows \<and> media_id m = i"
  by (induction rows) (auto split: if_splits)

subsection \<open>upload\<close>

text \<open>
  C10. A POST to upload without the file field, or whose file has an empty filename,
  renders the upload form and does nothing else: the state of the request is the one it
  started with, so there is no remote upload, no new row, no flashed message, and the
  response is the rendered form, not a redirect.
\<close>

theorem upload_without_file:
  assumes "r_method req = POST"
    and "map_of (r_files req) ''file'' = None
         \<or> (\<exists>f. map_of (r_files req) ''file'' = Some f \<and> fs_filename f = [])"
  shows "upload env req s = (Inr (Render ''upload.html'' []), s)"
  using assms by (auto simp: upload_def)

theorem upload_without_file_witness:
  "r_method post_no_file = POST \<and> map_of (r_files post_no_file) ''file'' = None
   \<and> upload example_env post_no_file (begin_request empty_db 0)
       = (Inr (Render ''upload.html'' []), begin_request empty_db 0)"
  using upload_without_file [of post_no_file example_env "begin_request empty_db 0"]
  by (simp add: post_no_file_def)

text \<open>
  C3. When the remote upload of a POST to upload raises, the handler flashes
  \<^verbatim>\<open>Upload failed:\<close> with the message of the exception and redirects to the upload
  form; nothing is added to the session and nothing is committed, so the catalog is the
  one the request started with.
\<close>

theorem upload_remote_failure:
  assumes "r_method req = POST"
    and "map_of (r_files req) ''file'' = Some f"
    and "fs_filename f \<noteq> []"
    and "cloudinary_upload env w f = (Inl msg, w')"
  shows "upload env req (begin_request d w) =
           (Inr (Redirect ''upload''),
            \<lparr>committed = d, work = d, del_users = [], del_medias = [],
             trace = [RemoteUpload f, Flash (''Upload failed: '' @ msg)], world = w'\<rparr>)"
  using assms
  by (simp add: upload_def uploader_upload_def begin_request_def flash_def emit_def)

theorem upload_remote_failure_witness:
  "r_method post_empty_png = POST
   \<and> map_of (r_files post_empty_png) ''file'' = Some empty_png
   \<and> fs_filename empty_png \<noteq> []
   \<and> cloudinary_upload example_env 0 empty_png = (Inl ''Empty file'', 1)
   \<and> upload example_env post_empty_png (begin_request example_db 0) =
        (Inr (Redirect ''upload''),
         \<lparr>committed = example_db, work = example_db, del_users = [], del_medias = [],
          trace = [RemoteUpload empty_png, Flash ''Upload failed: Empty file''], world = 1\<rparr>)"
proof -
  have h1: "r_method post_empty_png = POST" by (simp add: post_empty_png_def)
  have h2: "map_of (r_files post_empty_png) ''file'' = Some empty_png"
    by (simp add: post_empty_png_def)
  have h3: "fs_filename empty_png \<noteq> []" by (simp add: empty_png_def)
  have h4: "cloudinary_upload example_env 0 empty_png = (Inl ''Empty file'', 1)"
    by (simp add: example_env_def empty_png_def)
  show ?thesis
    using upload_remote_failure [OF h1 h2 h3 h4, of example_db] h1 h2 h3 h4 by simp
qed


text \<open>The redirect to the gallery is given on that path only.\<close>

lemma upload_redirects_to_gallery_only_if:
  assumes "fst (upload env req (begin_request d w)) = Inr (Redirect ''gallery'')"
  shows "r_method req = POST
       \<and> (\<exists>f result w' secure_url pid.
             map_of (r_files req) ''file'' = Some f \<and> fs_filename f \<noteq> []
           \<and> cloudinary_upload env w f = (Inr result, w')
           \<and> map_of result ''secure_url'' = Some secure_url
           \<and> map_of result ''public_id'' = Some pid)"
  using assms
  by (auto simp: upload_def uploader_upload_def begin_request_def Let_def
      split: if_splits option.splits prod.splits sum.splits)


subsection \<open>delete\<close>

text \<open>
  C1, as the code has it. For an authenticated request and an existing media id: when
  the destroy call of the remote store raises, delete/{id} ends with that exception
  after the call, with nothing marked and nothing committed, so the catalog is
  unchanged; when the destroy call returns, whatever its reply says, the row is deleted
  and the deletion committed. The reply of the remote store is not inspected.
\<close>

theorem delete_after_destroy_returns:
  assumes "current_user req = Some u"
    and "find (\<lambda>x. media_id x = i) (media_rows d) = Some m"
  shows "(\<forall>e w'. cloudinary_destroy env w (public_id m) = (Inl e, w') \<longrightarrow>
            delete env i req (begin_request d w) =
              (Inl (CloudinaryError e),
               \<lparr>committed = d, work = d, del_users = [], del_medias = [],
                trace = [RemoteDestroy (public_id m)], world = w'\<rparr>))
       \<and> (\<forall>reply w'. cloudinary_destroy env w (public_id m) = (Inr reply, w') \<longrightarrow>
            fst (delete env i req (begin_request d w)) = Inr (Redirect ''manage'')
          \<and> committed (snd (delete env i req (begin_request d w)))
              = d\<lparr>media_rows := filter (\<lambda>x. media_id x \<noteq> i) (media_rows d)\<rparr>
          \<and> trace (snd (delete env i req (begin_request d w)))
              = [RemoteDestroy (public_id m), SessionDeleteMedia m, Commit,
                 Flash ''Deleted successfully''])"
  using assms find_media_id [OF assms(2)]
  by (simp add: delete_def login_required_def media_get_def begin_request_def destroy_def
      emit_def flash_def commit_def session_delete_media_def flush_def)

theorem delete_after_destroy_returns_witness:
  "current_user as_admin = Some admin
   \<and> find (\<lambda>x. media_id x = 2) (media_rows example_db) = Some (mk_media 2 ''b.jpg'' ''locked'' True)
   \<and> cloudinary_destroy example_env 0 ''locked'' = (Inl ''Forbidden'', 1)
   \<and> fst (delete example_env 2 as_admin (begin_request example_db 0)) = Inl (CloudinaryError ''Forbidden'')
   \<and> committed (snd (delete example_env 2 as_admin (begin_request example_db 0))) = example_db
   \<and> find (\<lambda>x. media_id x = 3) (media_rows example_db) = Some (mk_media 3 ''c.jpg'' ''pid-c'' False)
   \<and> cloudinary_destroy example_env 0 ''pid-c'' = (Inr ''ok'', 1)
   \<and> media_rows (committed (snd (delete example_env 3 as_admin (begin_request example_db 0))))
       = [mk_media 1 ''a.jpg'' ''gone'' True, mk_media 2 ''b.jpg'' ''locked'' True]"
proof -
  have h1: "current_user as_admin = Some admin" by (simp add: as_admin_def)
  have h2: "find (\<lambda>x. media_id x = 2) (media_rows example_db) = Some (mk_media 2 ''b.jpg'' ''locked'' True)"
    by (simp add: example_db_def mk_media_def)
  have h3: "find (\<lambda>x. media_id x = 3) (media_rows example_db) = Some (mk_media 3 ''c.jpg'' ''pid-c'' False)"
    by (simp add: example_db_def mk_media_def)
  have d2: "cloudinary_destroy example_env 0 ''locked'' = (Inl ''Forbidden'', 1)"
    by (simp add: example_env_def)
  have d3: "cloudinary_destroy example_env 0 ''pid-c'' = (Inr ''ok'', 1)"
    by (simp add: example_env_def)
  have p: "public_id (mk_media 2 ''b.jpg'' ''locked'' True) = ''locked''"
    "public_id (mk_media 3 ''c.jpg'' ''pid-c'' False) = ''pid-c''"
    by (simp_all add: mk_media_def)
  note T2 = delete_after_destroy_returns [OF h1 h2, of example_env "0::nat", unfolded p]
  note T3 = delete_after_destroy_returns [OF h1 h3, of example_env "0::nat", unfolded p]
  have r: "filter (\<lambda>x. media_id x \<noteq> 3) (media_rows example_db)
             = [mk_media 1 ''a.jpg'' ''gone'' True, mk_media 2 ''b.jpg'' ''locked'' True]"
    by (simp add: example_db_def mk_media_def)
  show ?thesis using T2 T3 h1 h2 h3 d2 d3 r by simp
qed

text \<open>
  Against C1 as stated: the remote store answers \<^verbatim>\<open>not found\<close> for the object of
  row 1, which is no acknowledgement of a successful destroy, and delete/1 removes the
  row all the same.
\<close>

theorem delete_unacknowledged_counterexample:
  "fst (cloudinary_destroy example_env 0 ''gone'') = Inr ''not found''
   \<and> media_get 1 (begin_request example_db 0) = Some (mk_media 1 ''a.jpg'' ''gone'' True)
   \<and> media_rows (committed (snd (delete example_env 1 as_admin (begin_request example_db 0))))
       = [mk_media 2 ''b.jpg'' ''locked'' True, mk_media 3 ''c.jpg'' ''pid-c'' False]"
  by (simp add: example_env_def example_db_def as_admin_def delete_def login_required_def
      media_get_def begin_request_def destroy_def emit_def flash_def commit_def
      session_delete_media_def flush_def mk_media_def)

subsection \<open>toggle_visibility\<close>

lemma distinct_media_id_eq:
  assumes "distinct (map media_id rows)" and "m \<in> set rows" and "x \<in> set rows"
  shows "media_id x = media_id m \<longleftrightarrow> x = m"
  using assms by (auto simp: distinct_map dest: inj_onD)

lemma map_flip_only:
  assumes "distinct (map media_id rows)" and "m \<in> set rows"
  shows "map (\<lambda>x. if media_id x = media_id m then f x else x) rows
           = map (\<lambda>x. if x = m then f m else x) rows"
  using distinct_media_id_eq [OF assms] by (intro map_cong) auto

lemma filter_visible_flipped:
  assumes "is_visible m"
  shows "filter is_visible (map (\<lambda>x. if x = m then m\<lparr>is_visible := \<not> is_visible m\<rparr> else x) rows)
           = filter (\<lambda>x. x \<noteq> m) (filter is_visible rows)"
  using assms by (induction rows) auto

text \<open>
  C7. For an authenticated request on a database that satisfies the constraints of the
  schema: toggle_visibility/{id} of an existing id commits the catalog in which that one
  row has its is_visible flag negated and every other row, and every other column of
  the row, is as before; the manage listing of a later request is that whole catalog
  and holds the toggled row, the gallery listing is its rows with is_visible true, and
  when the row was visible the gallery listing is the former one without the row. For
  an id with no row the handler redirects and leaves the state of the request as it
  was.
\<close>

theorem toggle_visibility_flips:
  assumes "current_user req = Some u" and "wf_db d"
  shows "(\<forall>m. find (\<lambda>x. media_id x = i) (media_rows d) = Some m \<longrightarrow>
            (let r = toggle_visibility i req (begin_request d w);
                 rows' = map (\<lambda>x. if x = m then m\<lparr>is_visible := \<not> is_visible m\<rparr> else x) (media_rows d)
             in fst r = Inr (Redirect ''manage'')
              \<and> committed (snd r) = d\<lparr>media_rows := rows'\<rparr>
              \<and> fst (manage req (begin_request (committed (snd r)) w')) = Inr (Render ''manage.html'' rows')
              \<and> m\<lparr>is_visible := \<not> is_visible m\<rparr> \<in> set rows'
              \<and> fst (gallery req' (begin_request (committed (snd r)) w'))
                   = Inr (Render ''gallery.html'' (filter is_visible rows'))
              \<and> (is_visible m \<longrightarrow>
                    filter is_visible rows' = filter (\<lambda>x. x \<noteq> m) (filter is_visible (media_rows d))
                  \<and> (\<forall>x \<in> set (filter is_visible rows'). media_id x \<noteq> i))))
       \<and> (find (\<lambda>x. media_id x = i) (media_rows d) = None \<longrightarrow>
            toggle_visibility i req (begin_request d w) = (Inr (Redirect ''manage''), begin_request d w))"
proof (intro conjI allI impI)
  fix m
  assume f: "find (\<lambda>x. media_id x = i) (media_rows d) = Some m"
  then have m: "m \<in> set (media_rows d)" "media_id m = i"
    using find_media_id by blast+
  have dist: "distinct (map media_id (media_rows d))"
    using assms(2) by (simp add: wf_db_def)
  have rows: "map (\<lambda>x. if media_id x = i then flip_visible x else x) (media_rows d)
        = map (\<lambda>x. if x = m then m\<lparr>is_visible := \<not> is_visible m\<rparr> else x) (media_rows d)"
    using map_flip_only [OF dist m(1), of flip_visible] m(2) by (simp add: flip_visible_def)
  have r: "toggle_visibility i req (begin_request d w)
         = (Inr (Redirect ''manage''),
            commit (media_update i flip_visible (begin_request d w)))"
    using assms(1) f
    by (simp add: toggle_visibility_def login_required_def media_get_def begin_request_def)
  have c: "committed (commit (media_update i flip_visible (begin_request d w)))
         = d\<lparr>media_rows := map (\<lambda>x. if x = m then m\<lparr>is_visible := \<not> is_visible m\<rparr> else x) (media_rows d)\<rparr>"
    by (simp add: commit_def emit_def flush_def media_update_def begin_request_def rows)
  have vis: "is_visible m \<Longrightarrow>
      filter is_visible (map (\<lambda>x. if x = m then m\<lparr>is_visible := \<not> is_visible m\<rparr> else x) (media_rows d))
        = filter (\<lambda>x. x \<noteq> m) (filter is_visible (media_rows d))"
    by (rule filter_visible_flipped)
  have none: "is_visible m \<Longrightarrow> x \<in> set (filter (\<lambda>x. x \<noteq> m) (filter is_visible (media_rows d)))
      \<Longrightarrow> media_id x \<noteq> i" for x
    using distinct_media_id_eq [OF dist m(1), of x] m(2) by auto
  have inrows: "m\<lparr>is_visible := \<not> is_visible m\<rparr>
      \<in> set (map (\<lambda>x. if x = m then m\<lparr>is_visible := \<not> is_visible m\<rparr> else x) (media_rows d))"
    using m(1) by (auto simp: image_iff intro!: bexI [of _ m])
  show "let r = toggle_visibility i req (begin_request d w);
            rows' = map (\<lambda>x. if x = m then m\<lparr>is_visible := \<not> is_visible m\<rparr> else x) (media_rows d)
        in fst r = Inr (Redirect ''manage'')
         \<and> committed (snd r) = d\<lparr>media_rows := rows'\<rparr>
         \<and> fst (manage req (begin_request (committed (snd r)) w')) = Inr (Render ''manage.html'' rows')
         \<and> m\<lparr>is_visible := \<not> is_visible m\<rparr> \<in> set rows'
         \<and> fst (gallery req' (begin_request (committed (snd r)) w'))
              = Inr (Render ''gallery.html'' (filter is_visible rows'))
         \<and> (is_visible m \<longrightarrow>
               filter is_visible rows' = filter (\<lambda>x. x \<noteq> m) (filter is_visible (media_rows d))
             \<and> (\<forall>x \<in> set (filter is_visible rows'). media_id x \<noteq> i))"
    unfolding Let_def r fst_conv snd_conv c
    using assms(1) inrows vis none
    by (simp add: manage_def gallery_def login_required_def begin_request_def flush_def)
next
  assume "find (\<lambda>x. media_id x = i) (media_rows d) = None"
  then show "toggle_visibility i req (begin_request d w) = (Inr (Redirect ''manage''), begin_request d w)"
    using assms(1)
    by (simp add: toggle_visibility_def login_required_def media_get_def begin_request_def)
qed

lemma wf_example_db: "wf_db example_db"
  by (simp add: wf_db_def example_db_def mk_media_def admin_def)

theorem toggle_visibility_flips_witness:
  "current_user as_admin = Some admin \<and> wf_db example_db
   \<and> find (\<lambda>x. media_id x = 1) (media_rows example_db) = Some (mk_media 1 ''a.jpg'' ''gone'' True)
   \<and> fst (gallery as_admin (begin_request example_db (0::nat)))
       = Inr (Render ''gallery.html'' [mk_media 1 ''a.jpg'' ''gone'' True, mk_media 2 ''b.jpg'' ''locked'' True])
   \<and> fst (gallery as_admin (begin_request
        (committed (snd (toggle_visibility 1 as_admin (begin_request example_db (0::nat))))) (0::nat)))
       = Inr (Render ''gallery.html'' [mk_media 2 ''b.jpg'' ''locked'' True])
   \<and> fst (manage as_admin (begin_request
        (committed (snd (toggle_visibility 1 as_admin (begin_request example_db (0::nat))))) (0::nat)))
       = Inr (Render ''manage.html'' [mk_media 1 ''a.jpg'' ''gone'' False,
            mk_media 2 ''b.jpg'' ''locked'' True, mk_media 3 ''c.jpg'' ''pid-c'' False])
   \<and> find (\<lambda>x. media_id x = 7) (media_rows example_db) = None
   \<and> snd (toggle_visibility 7 as_admin (begin_request example_db (0::nat))) = begin_request example_db 0"
proof -
  have h1: "current_user as_admin = Some admin" by (simp add: as_admin_def)
  have h2: "find (\<lambda>x. media_id x = 1) (media_rows example_db) = Some (mk_media 1 ''a.jpg'' ''gone'' True)"
    by (simp add: example_db_def mk_media_def)
  have h3: "find (\<lambda>x. media_id x = 7) (media_rows example_db) = None"
    by (simp add: example_db_def mk_media_def)
  have g: "fst (gallery as_admin (begin_request example_db (0::nat)))
       = Inr (Render ''gallery.html'' [mk_media 1 ''a.jpg'' ''gone'' True, mk_media 2 ''b.jpg'' ''locked'' True])"
    by (simp add: gallery_def begin_request_def flush_def example_db_def mk_media_def)
  have r: "map (\<lambda>x. if x = mk_media 1 ''a.jpg'' ''gone'' True
                    then (mk_media 1 ''a.jpg'' ''gone'' True)\<lparr>is_visible := \<not> is_visible (mk_media 1 ''a.jpg'' ''gone'' True)\<rparr>
                    else x) (media_rows example_db)
        = [mk_media 1 ''a.jpg'' ''gone'' False, mk_media 2 ''b.jpg'' ''locked'' True,
           mk_media 3 ''c.jpg'' ''pid-c'' False]"
    by (simp add: example_db_def mk_media_def)
  have v: "filter is_visible [mk_media 1 ''a.jpg'' ''gone'' False, mk_media 2 ''b.jpg'' ''locked'' True,
           mk_media 3 ''c.jpg'' ''pid-c'' False] = [mk_media 2 ''b.jpg'' ''locked'' True]"
    by (simp add: mk_media_def)
  note T1 = toggle_visibility_flips [OF h1 wf_example_db, of 1 "0::nat" "0::nat" as_admin,
      THEN conjunct1, rule_format, OF h2, unfolded Let_def r v]
  note T7 = toggle_visibility_flips [OF h1 wf_example_db, of 7 "0::nat" "0::nat" as_admin,
      THEN conjunct2, rule_format, OF h3]
  have a: "fst (gallery as_admin (begin_request
        (committed (snd (toggle_visibility 1 as_admin (begin_request example_db (0::nat))))) (0::nat)))
       = Inr (Render ''gallery.html'' [mk_media 2 ''b.jpg'' ''locked'' True])"
    using T1 by blast
  have b: "fst (manage as_admin (begin_request
        (committed (snd (toggle_visibility 1 as_admin (begin_request example_db (0::nat))))) (0::nat)))
       = Inr (Render ''manage.html'' [mk_media 1 ''a.jpg'' ''gone'' False,
            mk_media 2 ''b.jpg'' ''locked'' True, mk_media 3 ''c.jpg'' ''pid-c'' False])"
    using T1 by blast
  show ?thesis using a b T7 h1 h2 h3 g wf_example_db by simp
qed


subsection \<open>bulk_toggle_visibility\<close>

lemma flip_visible_twice [simp]: "flip_visible (flip_visible m) = m"
  by (simp add: flip_visible_def)

lemma media_id_flip_visible [simp]: "media_id (flip_visible m) = media_id m"
  by (simp add: flip_visible_def)

lemma find_None_map_id:
  "find (\<lambda>m. media_id m = i) rows = None \<Longrightarrow>
   map (\<lambda>m. if media_id m = i then f m else m) rows = rows"
  by (induction rows) (auto split: if_splits)

lemma media_update_absent: "media_get i s = None \<Longrightarrow> media_update i f s = s"
  by (simp add: media_get_def media_update_def find_None_map_id)

lemma toggle_each_Cons: "toggle_each (i # rest) s = toggle_each rest (media_update i flip_visible s)"
  by (cases "media_get i s") (simp_all add: media_update_absent)

lemma toggle_each_parity:
  "toggle_each ids s =
     s\<lparr>work := (work s)\<lparr>media_rows :=
        map (\<lambda>m. if odd (count_list ids (media_id m)) then flip_visible m else m)
          (media_rows (work s))\<rparr>\<rparr>"
proof (induction ids arbitrary: s)
  case Nil
  show ?case by simp
next
  case (Cons i rest)
  have "map (\<lambda>m. if odd (count_list rest (media_id m)) then flip_visible m else m)
          (map (\<lambda>m. if media_id m = i then flip_visible m else m) rows)
        = map (\<lambda>m. if odd (count_list (i # rest) (media_id m)) then flip_visible m else m) rows"
    for rows
    by (induction rows) auto
  then show ?case
    unfolding toggle_each_Cons Cons.IH by (simp add: media_update_def)
qed

lemma count_list_distinct: "distinct ids \<Longrightarrow> odd (count_list ids x) = (x \<in> set ids)"
  by (induction ids) auto

text \<open>
  C8, as the code has it. For an authenticated request, bulk_toggle_visibility answers
  \<^verbatim>\<open>{"status": "success"}\<close> for every list of ids, performs one commit and no other
  effect, and negates the flag of a row once for each occurrence of its id in the list:
  a row ends up flipped when its id occurs an odd number of times, and is unchanged
  when its id occurs an even number of times or not at all. Ids without a row change
  nothing. For a list without repeated ids, exactly the rows whose id is in the list
  are flipped.
\<close>

theorem bulk_toggle_visibility_each_occurrence:
  assumes "current_user req = Some u"
  shows "(let ids = json_get req ''media_ids'' [];
              d' = d\<lparr>media_rows :=
                      map (\<lambda>m. if odd (count_list ids (media_id m)) then flip_visible m else m)
                        (media_rows d)\<rparr>
          in bulk_toggle_visibility req (begin_request d w) =
               (Inr (Jsonify [(''status'', ''success'')]),
                \<lparr>committed = d', work = d', del_users = [], del_medias = [],
                 trace = [Commit], world = w\<rparr>)
           \<and> (distinct ids \<longrightarrow>
                media_rows d' =
                  map (\<lambda>m. if media_id m \<in> set ids then flip_visible m else m) (media_rows d)))"
  using assms
  by (simp add: bulk_toggle_visibility_def login_required_def toggle_each_parity Let_def
      begin_request_def commit_def flush_def emit_def count_list_distinct)

theorem bulk_toggle_visibility_each_occurrence_witness:
  "current_user (post_ids [1, 3, 999]) = Some admin
   \<and> distinct [1, 3, 999 :: int]
   \<and> fst (bulk_toggle_visibility (post_ids [1, 3, 999]) (begin_request example_db (0::nat)))
       = Inr (Jsonify [(''status'', ''success'')])
   \<and> media_rows (committed (snd (bulk_toggle_visibility (post_ids [1, 3, 999])
                                    (begin_request example_db (0::nat)))))
       = [mk_media 1 ''a.jpg'' ''gone'' False, mk_media 2 ''b.jpg'' ''locked'' True,
          mk_media 3 ''c.jpg'' ''pid-c'' True]"
proof -
  have h: "current_user (post_ids [1, 3, 999]) = Some admin" by (simp add: post_ids_def)
  have j: "json_get (post_ids [1, 3, 999]) ''media_ids'' [] = [1, 3, 999]"
    by (simp add: post_ids_def json_get_def)
  note T = bulk_toggle_visibility_each_occurrence [OF h, of example_db "0::nat", unfolded Let_def j]
  have r: "map (\<lambda>m. if odd (count_list [1, 3, 999] (media_id m)) then flip_visible m else m)
             (media_rows example_db)
           = [mk_media 1 ''a.jpg'' ''gone'' False, mk_media 2 ''b.jpg'' ''locked'' True,
              mk_media 3 ''c.jpg'' ''pid-c'' True]"
    by (simp add: example_db_def mk_media_def flip_visible_def)
  show ?thesis using T h unfolding r by simp
qed


text \<open>
  Against C8 as stated: for the list [3, 3] row 3 is found, and its flag is the same
  after the request as before; the catalog is unchanged.
\<close>

theorem bulk_toggle_visibility_repeated_counterexample:
  "json_get (post_ids [3, 3]) ''media_ids'' [] = [3, 3]
   \<and> media_get 3 (begin_request example_db 0) = Some (mk_media 3 ''c.jpg'' ''pid-c'' False)
   \<and> committed (snd (bulk_toggle_visibility (post_ids [3, 3]) (begin_request example_db (0::nat))))
       = example_db"
  by (simp add: post_ids_def json_get_def bulk_toggle_visibility_def login_required_def
      begin_request_def commit_def flush_def emit_def example_db_def media_get_def
      media_update_def flip_visible_def mk_media_def)

subsection \<open>delete and bulk_delete: the order of the effects\<close>

lemma destroy_first_any_prev: "destroy_first None es \<Longrightarrow> destroy_first prev es"
  by (cases es) (auto split: event.splits)

lemma destroy_first_append:
  "destroy_first prev xs \<Longrightarrow> destroy_first None ys \<Longrightarrow> destroy_first prev (xs @ ys)"
  by (induction xs arbitrary: prev) (auto intro: destroy_first_any_prev)

lemma destroy_first_adjacent:
  assumes "destroy_first prev es" and "k < length es" and "es ! k = SessionDeleteMedia m"
  shows "(if k = 0 then prev else Some (es ! (k - 1))) = Some (RemoteDestroy (public_id m))"
  using assms
proof (induction es arbitrary: prev k)
  case Nil
  then show ?case by simp
next
  case (Cons e es)
  show ?case
  proof (cases k)
    case 0
    with Cons.prems show ?thesis by simp
  next
    case (Suc j)
    with Cons.prems have "destroy_first (Some e) es" "j < length es" "es ! j = SessionDeleteMedia m"
      by simp_all
    from Cons.IH [OF this] Suc show ?thesis
      by (cases j) simp_all
  qed
qed

lemma delete_each_effects:
  "delete_each env ids s = (r, s') \<Longrightarrow>
     \<exists>evs. trace s' = trace s @ evs \<and> destroy_first None evs \<and> Commit \<notin> set evs
          \<and> committed s' = committed s \<and> work s' = work s \<and> del_users s' = del_users s
          \<and> set (del_medias s') = set (del_medias s) \<union> {media_id m |m. SessionDeleteMedia m \<in> set evs}
          \<and> (\<forall>m. SessionDeleteMedia m \<in> set evs \<longrightarrow> m \<in> set (media_rows (work s)))
          \<and> (r = None \<or> (\<exists>msg. r = Some (CloudinaryError msg)))"
proof (induction ids arbitrary: s)
  case Nil
  then show ?case by auto
next
  case (Cons i rest)
  show ?case
  proof (cases "media_get i s")
    case None
    with Cons.prems have "delete_each env rest s = (r, s')" by simp
    from Cons.IH [OF this] show ?thesis .
  next
    case (Some m)
    then have min: "m \<in> set (media_rows (work s))"
      using find_media_id by (auto simp: media_get_def)
    obtain out w' where cd: "cloudinary_destroy env (world s) (public_id m) = (out, w')"
      by (cases "cloudinary_destroy env (world s) (public_id m)")
    show ?thesis
    proof (cases out)
      case (Inl e)
      with Cons.prems Some cd
      have "s' = emit (RemoteDestroy (public_id m)) (s\<lparr>world := w'\<rparr>)" "r = Some (CloudinaryError e)"
        by (auto simp: destroy_def)
      then show ?thesis
        by (intro exI [of _ "[RemoteDestroy (public_id m)]"]) (simp add: emit_def)
    next
      case (Inr reply)
      define s1 where "s1 = session_delete_media m (emit (RemoteDestroy (public_id m)) (s\<lparr>world := w'\<rparr>))"
      from Inr Cons.prems Some cd have "delete_each env rest s1 = (r, s')"
        by (simp add: destroy_def s1_def)
      from Cons.IH [OF this] obtain evs where evs:
        "trace s' = trace s1 @ evs" "destroy_first None evs" "Commit \<notin> set evs"
        "committed s' = committed s1" "work s' = work s1" "del_users s' = del_users s1"
        "set (del_medias s') = set (del_medias s1) \<union> {media_id m |m. SessionDeleteMedia m \<in> set evs}"
        "\<forall>m. SessionDeleteMedia m \<in> set evs \<longrightarrow> m \<in> set (media_rows (work s1))"
        "r = None \<or> (\<exists>msg. r = Some (CloudinaryError msg))"
        by blast
      have s1: "trace s1 = trace s @ [RemoteDestroy (public_id m), SessionDeleteMedia m]"
        "committed s1 = committed s" "work s1 = work s" "del_users s1 = del_users s"
        "del_medias s1 = media_id m # del_medias s"
        by (simp_all add: s1_def session_delete_media_def emit_def)
      have df: "destroy_first None ([RemoteDestroy (public_id m), SessionDeleteMedia m] @ evs)"
        using evs(2) by (intro destroy_first_append) simp_all
      show ?thesis
        apply (intro exI [of _ "[RemoteDestroy (public_id m), SessionDeleteMedia m] @ evs"])
        using evs s1 df min by auto
    qed
  qed
qed


lemma delete_trace_cases:
  "trace (snd (delete env i req (begin_request d w))) = [Flash ''Please log in to access this page.'']
     \<and> committed (snd (delete env i req (begin_request d w))) = d
   \<or> trace (snd (delete env i req (begin_request d w))) = []
     \<and> committed (snd (delete env i req (begin_request d w))) = d
   \<or> (\<exists>p. trace (snd (delete env i req (begin_request d w))) = [RemoteDestroy p]
     \<and> committed (snd (delete env i req (begin_request d w))) = d)
   \<or> (\<exists>m. find (\<lambda>x. media_id x = i) (media_rows d) = Some m
     \<and> trace (snd (delete env i req (begin_request d w)))
         = [RemoteDestroy (public_id m), SessionDeleteMedia m, Commit, Flash ''Deleted successfully'']
     \<and> committed (snd (delete env i req (begin_request d w)))
         = d\<lparr>media_rows := filter (\<lambda>x. media_id x \<noteq> i) (media_rows d)\<rparr>)"
proof (cases "current_user req")
  case None
  then show ?thesis
    by (simp add: delete_def login_required_def flash_def emit_def begin_request_def)
next
  case (Some u)
  show ?thesis
  proof (cases "find (\<lambda>x. media_id x = i) (media_rows d)")
    case None
    with Some show ?thesis
      by (simp add: delete_def login_required_def media_get_def begin_request_def)
  next
    case (Some m)
    note f = this
    obtain out w' where cd: "cloudinary_destroy env w (public_id m) = (out, w')"
      by (cases "cloudinary_destroy env w (public_id m)")
    from \<open>current_user req = Some u\<close> f cd find_media_id [OF f] show ?thesis
      by (cases out)
        (auto simp: delete_def login_required_def media_get_def begin_request_def destroy_def
          emit_def flash_def commit_def session_delete_media_def flush_def)
  qed
qed

lemma bulk_delete_trace_cases:
  assumes "distinct (map media_id (media_rows d))"
  shows "fst (bulk_delete env req (begin_request d w)) \<noteq> Inr (Jsonify [(''status'', ''success'')])
       \<and> (current_user req \<noteq> None \<longrightarrow> (\<exists>e. fst (bulk_delete env req (begin_request d w)) = Inl (CloudinaryError e)))
       \<and> committed (snd (bulk_delete env req (begin_request d w))) = d
       \<and> Commit \<notin> set (trace (snd (bulk_delete env req (begin_request d w))))
       \<and> destroy_first None (trace (snd (bulk_delete env req (begin_request d w))))
     \<or> fst (bulk_delete env req (begin_request d w)) = Inr (Jsonify [(''status'', ''success'')])
       \<and> (\<exists>evs. trace (snd (bulk_delete env req (begin_request d w))) = evs @ [Commit]
             \<and> Commit \<notin> set evs \<and> destroy_first None evs
             \<and> committed (snd (bulk_delete env req (begin_request d w)))
                 = d\<lparr>media_rows := filter (\<lambda>m. SessionDeleteMedia m \<notin> set evs) (media_rows d)\<rparr>)"
proof (cases "current_user req")
  case None
  then show ?thesis
    by (simp add: bulk_delete_def login_required_def flash_def emit_def begin_request_def)
next
  case (Some u)
  obtain r0 s1 where de: "delete_each env (json_get req ''media_ids'' []) (begin_request d w) = (r0, s1)"
    by (cases "delete_each env (json_get req ''media_ids'' []) (begin_request d w)")
  from delete_each_effects [OF de] obtain evs where evs:
    "trace s1 = evs" "destroy_first None evs" "Commit \<notin> set evs"
    "committed s1 = d" "work s1 = d" "del_users s1 = []"
    "set (del_medias s1) = {media_id m |m. SessionDeleteMedia m \<in> set evs}"
    "\<forall>m. SessionDeleteMedia m \<in> set evs \<longrightarrow> m \<in> set (media_rows d)"
    "r0 = None \<or> (\<exists>msg. r0 = Some (CloudinaryError msg))"
    by (auto simp: begin_request_def)
  show ?thesis
  proof (cases r0)
    case (Some e)
    with evs(9) have "\<exists>msg. e = CloudinaryError msg" by simp
    with Some \<open>current_user req = Some u\<close> de evs show ?thesis
      by (auto simp: bulk_delete_def login_required_def)
  next
    case None
    have "filter (\<lambda>m. media_id m \<notin> set (del_medias s1)) (media_rows d)
            = filter (\<lambda>m. SessionDeleteMedia m \<notin> set evs) (media_rows d)"
    proof (rule filter_cong [OF refl])
      fix x assume x: "x \<in> set (media_rows d)"
      show "(media_id x \<notin> set (del_medias s1)) = (SessionDeleteMedia x \<notin> set evs)"
        using evs(7,8) distinct_media_id_eq [OF assms _ x] by auto
    qed
    with None \<open>current_user req = Some u\<close> de evs show ?thesis
      by (auto simp: bulk_delete_def login_required_def commit_def emit_def flush_def)
  qed
qed




subsection \<open>setup\<close>

lemma begin_request_sel [simp]:
  "committed (begin_request d w) = d" "work (begin_request d w) = d"
  "del_users (begin_request d w) = []" "del_medias (begin_request d w) = []"
  "trace (begin_request d w) = []" "world (begin_request d w) = w"
  by (simp_all add: begin_request_def)

lemma flush_begin_request [simp]: "flush (begin_request d w) = d"
  by (simp add: flush_def begin_request_def)

lemma user_by_name_begin_request:
  "user_by_name (Some name) (begin_request d w) = find (\<lambda>u. username u = name) (user_rows d)"
  by (simp add: user_by_name_def)

lemma find_username:
  "find (\<lambda>u. username u = name) rows = Some u \<Longrightarrow> u \<in> set rows \<and> username u = name"
  by (induction rows) (auto split: if_splits)

lemma find_username_None:
  "find (\<lambda>u. username u = name) rows = None \<longleftrightarrow> name \<notin> username ` set rows"
  by (induction rows) auto

lemma filter_existing_user:
  assumes "distinct (map user_id rows)" and "distinct (map username rows)"
    and "u \<in> set rows"
  shows "filter (\<lambda>x. user_id x \<noteq> user_id u) rows = filter (\<lambda>x. username x \<noteq> username u) rows"
proof (rule filter_cong [OF refl])
  fix x assume x: "x \<in> set rows"
  have "user_id x = user_id u \<longleftrightarrow> x = u"
    using assms(1,3) x by (auto simp: distinct_map dest: inj_onD)
  moreover have "username x = username u \<longleftrightarrow> x = u"
    using assms(2,3) x by (auto simp: distinct_map dest: inj_onD)
  ultimately show "(user_id x \<noteq> user_id u) = (username x \<noteq> username u)" by simp
qed

lemma filter_absent_user:
  "name \<notin> username ` set rows \<Longrightarrow> filter (\<lambda>x. username x \<noteq> name) rows = rows"
  by (induction rows) auto

lemma setup_view_once:
  assumes "wf_db d" and "r_method req = POST"
    and "form_get req ''username'' = Some name" and "form_get req ''password'' = Some pw"
    and "name \<noteq> []" and "pw \<noteq> []"
  shows "fst (setup_view env req (begin_request d w)) = Inr (Redirect ''login'')"
    and "committed (snd (setup_view env req (begin_request d w)))
         = d\<lparr>user_rows := filter (\<lambda>x. username x \<noteq> name) (user_rows d)
                @ [\<lparr>user_id = user_seq d + 1, username = name,
                    password = fst (generate_password_hash env w pw)\<rparr>],
              user_seq := user_seq d + 1\<rparr>"
proof -
  obtain h w' where gh: "generate_password_hash env w pw = (h, w')"
    by (cases "generate_password_hash env w pw")
  show "fst (setup_view env req (begin_request d w)) = Inr (Redirect ''login'')"
    using assms(2-6)
    by (simp add: setup_view_def py_not_def hash_password_def Let_def split: prod.splits)
  show "committed (snd (setup_view env req (begin_request d w)))
         = d\<lparr>user_rows := filter (\<lambda>x. username x \<noteq> name) (user_rows d)
                @ [\<lparr>user_id = user_seq d + 1, username = name,
                    password = fst (generate_password_hash env w pw)\<rparr>],
              user_seq := user_seq d + 1\<rparr>"
  proof (cases "find (\<lambda>u. username u = name) (user_rows d)")
    case None
    then have "filter (\<lambda>x. username x \<noteq> name) (user_rows d) = user_rows d"
      by (simp add: find_username_None filter_absent_user)
    with None assms(2-6) gh show ?thesis
      by (simp add: setup_view_def py_not_def user_by_name_begin_request hash_password_def Let_def
          commit_def emit_def flash_def session_add_user_def flush_def)
  next
    case (Some u)
    from find_username [OF Some] assms(1)
    have "filter (\<lambda>x. user_id x \<noteq> user_id u) (user_rows d)
            = filter (\<lambda>x. username x \<noteq> name) (user_rows d)"
      using filter_existing_user [of "user_rows d" u] by (simp add: wf_db_def)
    with Some assms(2-6) gh show ?thesis
      by (simp add: setup_view_def py_not_def user_by_name_begin_request hash_password_def Let_def
          commit_def emit_def flash_def session_add_user_def flush_def
          session_delete_user_def)
  qed
qed

lemma wf_db_replace_user:
  assumes "wf_db d"
  shows "wf_db (d\<lparr>user_rows := filter (\<lambda>x. username x \<noteq> name) (user_rows d)
                @ [\<lparr>user_id = user_seq d + 1, username = name, password = h\<rparr>],
              user_seq := user_seq d + 1\<rparr>)"
proof -
  have "user_seq d + 1 \<notin> user_id ` set (user_rows d)"
    using assms by (auto simp: wf_db_def list_all_iff)
  then have "user_seq d + 1 \<notin> user_id ` {x \<in> set (user_rows d). username x \<noteq> name}"
    by auto
  moreover have "list_all (\<lambda>u. user_id u \<le> user_seq d + 1) (filter (\<lambda>x. username x \<noteq> name) (user_rows d))"
    using assms by (auto simp: wf_db_def list_all_iff)
  ultimately show ?thesis
    using assms by (auto simp: wf_db_def distinct_map_filter)
qed




subsection \<open>register and login\<close>





subsection \<open>download_selected\<close>

lemma fetch_all_length: "fetch_all env w us = (Inr cs, w') \<Longrightarrow> length cs = length us"
  by (induction us arbitrary: w cs) (auto split: prod.splits sum.splits)

lemma write_selected_entries:
  assumes "map (py_int env) ids = map Some ns"
    and "fetch_all env (world s) (map url (selected_rows (media_rows (work s)) ns)) = (Inr cs, w')"
  shows "write_selected env ids zf s =
           (Inr (zf @ zip (map filename (selected_rows (media_rows (work s)) ns)) cs),
            s\<lparr>trace := trace s @ map HttpGet (map url (selected_rows (media_rows (work s)) ns)),
              world := w'\<rparr>)"
  using assms
proof (induction ids arbitrary: ns zf s cs)
  case Nil
  then show ?case by simp
next
  case (Cons a ids)
  then obtain i rest where ns: "ns = i # rest" "py_int env a = Some i"
    "map (py_int env) ids = map Some rest"
    by (cases ns) auto
  show ?case
  proof (cases "find (\<lambda>m. media_id m = i) (media_rows (work s))")
    case None
    with Cons.prems(2) ns have "fetch_all env (world s) (map url (selected_rows (media_rows (work s)) rest)) = (Inr cs, w')"
      by simp
    from Cons.IH [OF ns(3) this] None ns show ?thesis
      by (simp add: media_get_def)
  next
    case (Some m)
    with Cons.prems(2) ns obtain c w1 cs' where f:
      "requests_get env (world s) (url m) = (Inr c, w1)"
      "fetch_all env w1 (map url (selected_rows (media_rows (work s)) rest)) = (Inr cs', w')"
      "cs = c # cs'"
      by (auto split: prod.splits sum.splits)
    define s1 where "s1 = emit (HttpGet (url m)) (s\<lparr>world := w1\<rparr>)"
    have s1: "world s1 = w1" "work s1 = work s" "trace s1 = trace s @ [HttpGet (url m)]"
      by (simp_all add: s1_def emit_def)
    from f(2) have "fetch_all env (world s1) (map url (selected_rows (media_rows (work s1)) rest)) = (Inr cs', w')"
      by (simp add: s1)
    from Cons.IH [OF ns(3) this, of "zf @ [(filename m, c)]"] Some ns f(1,3) show ?thesis
      by (simp add: media_get_def http_get_def s1 s1_def [symmetric]) (simp add: s1_def emit_def)
  qed
qed

text \<open>
  C9, as the code has it. For an authenticated request with a non-empty selection in
  which every id is accepted by \<^verbatim>\<open>int()\<close> and every fetch returns, download_selected
  answers with the attachment \<^verbatim>\<open>selected_media.zip\<close> whose entries are, in the order
  of the selection, one entry for every occurrence of an id that has a Media row: the
  entry is named by the stored filename of the row and holds the bytes fetched from its
  url. Ids without a row contribute no entry; an id selected twice contributes two
  entries. The handler changes nothing in the database.
\<close>

theorem download_selected_entries:
  assumes "current_user req = Some u"
    and "form_getlist req ''media_ids'' = ids" and "ids \<noteq> []"
    and "map (py_int env) ids = map Some ns"
    and "fetch_all env w (map url (selected_rows (media_rows d) ns)) = (Inr contents, w')"
  shows "download_selected env req (begin_request d w) =
           (Inr (SendFile ''selected_media.zip''
                   (zip (map filename (selected_rows (media_rows d) ns)) contents)),
            \<lparr>committed = d, work = d, del_users = [], del_medias = [],
             trace = map HttpGet (map url (selected_rows (media_rows d) ns)), world = w'\<rparr>)
       \<and> length contents = length (selected_rows (media_rows d) ns)"
proof -
  have "write_selected env ids [] (begin_request d w) =
          (Inr (zip (map filename (selected_rows (media_rows d) ns)) contents),
           (begin_request d w)\<lparr>trace := map HttpGet (map url (selected_rows (media_rows d) ns)),
              world := w'\<rparr>)"
    using write_selected_entries [OF assms(4), of "begin_request d w" contents w' "[]"] assms(5)
    by simp
  with assms(1,2,3) fetch_all_length [OF assms(5)] show ?thesis
    by (simp add: download_selected_def login_required_def Let_def begin_request_def)
qed

theorem download_selected_entries_witness:
  "current_user (post_selection [''1'', ''999'', ''3'']) = Some admin
   \<and> form_getlist (post_selection [''1'', ''999'', ''3'']) ''media_ids'' = [''1'', ''999'', ''3'']
   \<and> map (py_int example_env) [''1'', ''999'', ''3''] = map Some [1, 999, 3]
   \<and> selected_rows (media_rows example_db) [1, 999, 3]
       = [mk_media 1 ''a.jpg'' ''gone'' True, mk_media 3 ''c.jpg'' ''pid-c'' False]
   \<and> fetch_all example_env 0 [''https://cdn.example/a.jpg'', ''https://cdn.example/c.jpg'']
       = (Inr [''bytes of https://cdn.example/a.jpg'', ''bytes of https://cdn.example/c.jpg''], 2)
   \<and> fst (download_selected example_env (post_selection [''1'', ''999'', ''3''])
            (begin_request example_db 0))
       = Inr (SendFile ''selected_media.zip''
               [(''a.jpg'', ''bytes of https://cdn.example/a.jpg''),
                (''c.jpg'', ''bytes of https://cdn.example/c.jpg'')])"
proof -
  have h1: "current_user (post_selection [''1'', ''999'', ''3'']) = Some admin"
    by (simp add: post_selection_def)
  have h2: "form_getlist (post_selection [''1'', ''999'', ''3'']) ''media_ids'' = [''1'', ''999'', ''3'']"
    by (simp add: post_selection_def form_getlist_def)
  have h3: "[''1'', ''999'', ''3''] \<noteq> []" by simp
  have h4: "map (py_int example_env) [''1'', ''999'', ''3''] = map Some [1, 999, 3]"
    by (simp add: example_env_def)
  have rows: "selected_rows (media_rows example_db) [1, 999, 3]
       = [mk_media 1 ''a.jpg'' ''gone'' True, mk_media 3 ''c.jpg'' ''pid-c'' False]"
    by (simp add: example_db_def mk_media_def)
  have urls: "map url [mk_media 1 ''a.jpg'' ''gone'' True, mk_media 3 ''c.jpg'' ''pid-c'' False]
       = [''https://cdn.example/a.jpg'', ''https://cdn.example/c.jpg'']"
    "map filename [mk_media 1 ''a.jpg'' ''gone'' True, mk_media 3 ''c.jpg'' ''pid-c'' False]
       = [''a.jpg'', ''c.jpg'']"
    by (simp_all add: mk_media_def)
  have fa: "fetch_all example_env 0 [''https://cdn.example/a.jpg'', ''https://cdn.example/c.jpg'']
       = (Inr [''bytes of https://cdn.example/a.jpg'', ''bytes of https://cdn.example/c.jpg''], 2)"
    by (simp add: example_env_def)
  have h5: "fetch_all example_env 0 (map url (selected_rows (media_rows example_db) [1, 999, 3]))
       = (Inr [''bytes of https://cdn.example/a.jpg'', ''bytes of https://cdn.example/c.jpg''], 2)"
    unfolding rows urls by (rule fa)
  note T = download_selected_entries [OF h1 h2 h3 h4 h5, unfolded rows urls]
  show ?thesis using T h1 h2 h4 rows fa by simp
qed


text \<open>
  Against C9 as stated: the selection 1, 1 names one existing row, and the archive has
  two entries for it.
\<close>

theorem download_selected_repeated_counterexample:
  "form_getlist (post_selection [''1'', ''1'']) ''media_ids'' = [''1'', ''1'']
   \<and> fst (download_selected example_env (post_selection [''1'', ''1'']) (begin_request example_db 0))
       = Inr (SendFile ''selected_media.zip''
               [(''a.jpg'', ''bytes of https://cdn.example/a.jpg''),
                (''a.jpg'', ''bytes of https://cdn.example/a.jpg'')])"
  by (simp add: post_selection_def form_getlist_def download_selected_def login_required_def
      begin_request_def example_env_def example_db_def mk_media_def media_get_def http_get_def
      emit_def)

text \<open>A selected id that \<^verbatim>\<open>int()\<close> rejects ends the request with the ValueError.\<close>

lemma download_selected_not_a_number:
  "fst (download_selected example_env (post_selection [''1'', ''x'']) (begin_request example_db 0))
     = Inl (ValueError ''x'')"
  by (simp add: post_selection_def form_getlist_def download_selected_def login_required_def
      begin_request_def example_env_def example_db_def mk_media_def media_get_def http_get_def
      emit_def)

section \<open>The constraints of the schema are kept\<close>

text \<open>
  The empty database satisfies the constraints of the schema, and whatever a route
  commits satisfies them again; the routes that only read commit nothing. So every
  database the application reaches from the empty one satisfies \<open>wf_db\<close>.
\<close>

lemma wf_db_empty_db: "wf_db empty_db"
  by (simp add: wf_db_def empty_db_def)

lemma wf_db_filter_media:
  "wf_db d \<Longrightarrow> wf_db (d\<lparr>media_rows := filter P (media_rows d)\<rparr>)"
  by (auto simp: wf_db_def distinct_map_filter list_all_iff)

lemma wf_db_map_media:
  assumes "wf_db d" and "\<And>m. media_id (f m) = media_id m"
  shows "wf_db (d\<lparr>media_rows := map f (media_rows d)\<rparr>)"
proof -
  have "map media_id (map f (media_rows d)) = map media_id (media_rows d)"
    by (simp add: assms(2))
  with assms show ?thesis
    by (auto simp: wf_db_def list_all_iff simp del: map_map)
qed

lemma wf_db_upload: "wf_db d \<Longrightarrow> wf_db (committed (snd (upload env req (begin_request d w))))"
  by (fastforce simp: upload_def uploader_upload_def flash_def emit_def commit_def flush_def
      session_add_media_def new_media_def Let_def wf_db_def list_all_iff
      split: option.splits prod.splits sum.splits)

lemma wf_db_delete: "wf_db d \<Longrightarrow> wf_db (committed (snd (delete env i req (begin_request d w))))"
  using delete_trace_cases [of env i req d w] by (auto intro: wf_db_filter_media)

lemma wf_db_bulk_delete:
  assumes "wf_db d"
  shows "wf_db (committed (snd (bulk_delete env req (begin_request d w))))"
proof -
  have "distinct (map media_id (media_rows d))"
    using assms by (simp add: wf_db_def)
  from bulk_delete_trace_cases [OF this, of env req w] assms show ?thesis
    by (auto intro: wf_db_filter_media)
qed

lemma wf_db_toggle_visibility:
  assumes "wf_db d"
  shows "wf_db (committed (snd (toggle_visibility i req (begin_request d w))))"
proof -
  have "committed (snd (toggle_visibility i req (begin_request d w))) = d
      \<or> committed (snd (toggle_visibility i req (begin_request d w)))
          = d\<lparr>media_rows := map (\<lambda>m. if media_id m = i then flip_visible m else m) (media_rows d)\<rparr>"
    by (auto simp: toggle_visibility_def login_required_def flash_def emit_def commit_def
        flush_def media_update_def split: option.splits)
  with assms show ?thesis
    by (auto intro!: wf_db_map_media)
qed

lemma wf_db_bulk_toggle_visibility:
  assumes "wf_db d"
  shows "wf_db (committed (snd (bulk_toggle_visibility req (begin_request d w))))"
proof -
  have "committed (snd (bulk_toggle_visibility req (begin_request d w))) = d
      \<or> (\<exists>ids. committed (snd (bulk_toggle_visibility req (begin_request d w)))
          = d\<lparr>media_rows := map (\<lambda>m. if odd (count_list ids (media_id m))
                                       then flip_visible m else m) (media_rows d)\<rparr>)"
    by (auto simp: bulk_toggle_visibility_def login_required_def flash_def emit_def commit_def
        flush_def toggle_each_parity split: option.splits)
  with assms show ?thesis
    by (auto intro!: wf_db_map_media)
qed

lemma wf_db_setup_view:
  assumes "wf_db d"
  shows "wf_db (committed (snd (setup_view env req (begin_request d w))))"
proof (cases "r_method req = POST \<and> \<not> py_not (form_get req ''username'')
                \<and> \<not> py_not (form_get req ''password'')")
  case True
  then obtain name pw where f: "r_method req = POST" "form_get req ''username'' = Some name"
    "form_get req ''password'' = Some pw" "name \<noteq> []" "pw \<noteq> []"
    by (auto simp: py_not_def split: option.splits)
  show ?thesis
    unfolding setup_view_once(2) [OF assms f] by (rule wf_db_replace_user [OF assms])
next
  case False
  then have "committed (snd (setup_view env req (begin_request d w))) = d"
    by (auto simp: setup_view_def py_not_def flash_def emit_def split: option.splits)
  with assms show ?thesis by simp
qed

lemma wf_db_register:
  assumes "wf_db d"
  shows "wf_db (committed (snd (register env req (begin_request d w))))"
proof (cases "r_method req = POST \<and> \<not> py_not (form_get req ''username'')
                \<and> \<not> py_not (form_get req ''password'')
                \<and> user_by_name (form_get req ''username'') (begin_request d w) = None")
  case True
  then obtain name pw where f: "r_method req = POST" "form_get req ''username'' = Some name"
    "form_get req ''password'' = Some pw" "name \<noteq> []" "pw \<noteq> []"
    "find (\<lambda>u. username u = name) (user_rows d) = None"
    by (auto simp: py_not_def user_by_name_begin_request split: option.splits)
  obtain h w' where gh: "generate_password_hash env w pw = (h, w')"
    by (cases "generate_password_hash env w pw")
  have "committed (snd (register env req (begin_request d w)))
          = d\<lparr>user_rows := filter (\<lambda>x. username x \<noteq> name) (user_rows d)
                @ [\<lparr>user_id = user_seq d + 1, username = name, password = h\<rparr>],
              user_seq := user_seq d + 1\<rparr>"
    using f gh filter_absent_user [of name "user_rows d"]
    by (simp add: register_def py_not_def user_by_name_begin_request hash_password_def
        commit_def emit_def flash_def session_add_user_def flush_def Let_def find_username_None)
  then show ?thesis
    by (simp only: wf_db_replace_user [OF assms])
next
  case False
  then have "committed (snd (register env req (begin_request d w))) = d"
    by (auto simp: register_def py_not_def flash_def emit_def split: option.splits)
  with assms show ?thesis by simp
qed

lemma read_only_routes:
  "committed (snd (gallery req (begin_request d w))) = d"
  "committed (snd (manage req (begin_request d w))) = d"
  "committed (snd (login env req (begin_request d w))) = d"
  "committed (snd (logout req (begin_request d w))) = d"
  "committed (snd (home req (begin_request d w))) = d"
  by (auto simp: gallery_def manage_def login_def logout_def home_def login_required_def
      flash_def emit_def split: option.splits)

lemma write_selected_read_only:
  "committed (snd (write_selected env ids zf s)) = committed s"
  by (induction ids arbitrary: zf s)
    (auto simp: http_get_def emit_def split: option.splits prod.splits sum.splits)

lemma download_selected_read_only:
  "committed (snd (download_selected env req (begin_request d w))) = d"
proof (cases "write_selected env (form_getlist req ''media_ids'') [] (begin_request d w)")
  case (Pair r s1)
  with write_selected_read_only [of env "form_getlist req ''media_ids''" "[]" "begin_request d w"]
  have "committed s1 = d" by simp
  with Pair show ?thesis
    by (auto simp: download_selected_def login_required_def flash_def emit_def Let_def
        split: option.splits sum.splits)
qed

end
